theory Spec2Isabelle
  imports Main "HOL-Library.Sublist"
begin

unbundle bit_operations_syntax

section \<open>Python values shared by the builder functions\<close>

text \<open>
  The module relative verification is \<^verbatim>\<open>wandb/sdk/launch/builder/build.py\<close>.  Every
  exception a modelled function can raise is a constructor of \<open>error\<close>; a function that
  can raise returns \<open>error + 'a\<close> with \<open>Inl\<close> for the exception.  \<open>TooManyLinks\<close> is the
  \<^verbatim>\<open>OSError\<close> of a symbolic-link loop, \<open>CopyIntoItself\<close> the failure of a recursive
  copy whose destination lies inside its source, and \<open>OtherError\<close> stands for an exception
  raised inside an external collaborator.
\<close>

datatype error =
    AssertionError string
  | UnboundLocalError string
  | LaunchError string
  | UnicodeEncodeError
  | IndexError
  | FileNotFoundError
  | FileExistsError
  | IsADirectoryError
  | NotADirectoryError
  | SameFileError
  | TooManyLinks
  | CopyIntoItself
  | OtherError string

definition squote :: char where "squote = CHR 0x27"
definition dquote :: char where "dquote = CHR 0x22"
definition backslash :: char where "backslash = CHR 0x5C"
definition newline :: char where "newline = CHR 0x0A"

text \<open>\<^verbatim>\<open>sep.join(xs)\<close>\<close>

fun py_join :: "string \<Rightarrow> string list \<Rightarrow> string" where
  "py_join sep [] = []"
| "py_join sep [x] = x"
| "py_join sep (x # y # ys) = x @ sep @ py_join sep (y # ys)"

text \<open>\<^verbatim>\<open>s.replace(old, new)\<close> for a pattern \<open>old\<close> of one character.\<close>

definition str_replace :: "string \<Rightarrow> char \<Rightarrow> string \<Rightarrow> string" where
  "str_replace s old new = concat (map (\<lambda>c. if c = old then new else [c]) s)"

section \<open>Shell quoting: \<^verbatim>\<open>shlex.quote\<close> and \<^verbatim>\<open>join\<close>\<close>

text \<open>
  \<^verbatim>\<open>_find_unsafe = re.compile(r'[^\w@%+=:,./-]', re.ASCII).search\<close>: a character is
  safe when it is an ASCII letter, digit or underscore, or one of \<^verbatim>\<open>@%+=:,./-\<close>.
\<close>

definition safe_char :: "char \<Rightarrow> bool" where
  "safe_char c =
     (let n = (of_char c :: nat)
      in (97 \<le> n \<and> n \<le> 122) \<or> (65 \<le> n \<and> n \<le> 90) \<or> (48 \<le> n \<and> n \<le> 57)
         \<or> c \<in> set ''_@%+=:,./-'')"

text \<open>
  \<^verbatim>\<open>
  def quote(s):
      if not s: return "''"
      if _find_unsafe(s) is None: return s
      return "'" + s.replace("'", "'\"'\"'") + "'"
  \<close>
\<close>

definition shlex_quote :: "string \<Rightarrow> string" where
  "shlex_quote s =
     (if s = [] then [squote, squote]
      else if list_all safe_char s then s
      else [squote] @ str_replace s squote [squote, dquote, squote, dquote, squote] @ [squote])"

text \<open>
  \<^verbatim>\<open>
  def join(split_command):
      return " ".join(shlex.quote(arg.replace("'", "")) for arg in split_command)
  \<close>
  and, for comparison, the standard library's \<^verbatim>\<open>shlex.join\<close>, which quotes each token
  as it is.
\<close>

definition join :: "string list \<Rightarrow> string" where
  "join split_command =
     py_join '' '' (map (\<lambda>arg. shlex_quote (str_replace arg squote [])) split_command)"

definition shlex_join :: "string list \<Rightarrow> string" where
  "shlex_join split_command = py_join '' '' (map shlex_quote split_command)"

subsection \<open>What a POSIX shell reads back\<close>

text \<open>
  Word splitting and quote removal of the POSIX shell for command lines without
  expansions: blanks separate words; inside single quotes every character is literal;
  inside double quotes a backslash escapes only \<^verbatim>\<open>$\<close>, the backquote, the double
  quote and the backslash; outside quotes a backslash makes the next character literal.
  Unquoted characters with a special meaning, and expansions inside double quotes, are
  outside this fragment (\<open>None\<close>), as is an unterminated quote.  The arguments are the
  quoting mode, the word read so far, and whether a word has been started.
\<close>

datatype quoting = Unquoted | InSingle | InDouble

fun sh_lex :: "quoting \<Rightarrow> string \<Rightarrow> bool \<Rightarrow> string \<Rightarrow> string list option" where
  "sh_lex Unquoted w started [] = Some (if started then [w] else [])"
| "sh_lex Unquoted w started (c # cs) =
     (if c = CHR '' '' \<or> c = CHR 0x09
      then map_option (\<lambda>ws. if started then w # ws else ws) (sh_lex Unquoted [] False cs)
      else if c = squote then sh_lex InSingle w True cs
      else if c = dquote then sh_lex InDouble w True cs
      else if c = backslash then
        (case cs of [] \<Rightarrow> None | d # ds \<Rightarrow> sh_lex Unquoted (w @ [d]) True ds)
      else if safe_char c then sh_lex Unquoted (w @ [c]) True cs
      else None)"
| "sh_lex InSingle w started [] = None"
| "sh_lex InSingle w started (c # cs) =
     (if c = squote then sh_lex Unquoted w True cs else sh_lex InSingle (w @ [c]) True cs)"
| "sh_lex InDouble w started [] = None"
| "sh_lex InDouble w started (c # cs) =
     (if c = dquote then sh_lex Unquoted w True cs
      else if c = backslash then
        (case cs of
           [] \<Rightarrow> None
         | d # ds \<Rightarrow>
             if d = CHR ''$'' \<or> d = CHR 0x60 \<or> d = dquote \<or> d = backslash
             then sh_lex InDouble (w @ [d]) True ds
             else sh_lex InDouble (w @ [backslash, d]) True ds)
      else if c = CHR ''$'' \<or> c = CHR 0x60 then None
      else sh_lex InDouble (w @ [c]) True cs)"

definition sh_words :: "string \<Rightarrow> string list option" where
  "sh_words line = sh_lex Unquoted [] False line"


section \<open>The project descriptor and the host\<close>

text \<open>
  The fields of \<^verbatim>\<open>LaunchProject\<close> that the modelled functions read.  A path is the list
  of its components below the file-system root; \<^verbatim>\<open>os.path.join(d, name)\<close> is
  \<open>d @ [name]\<close>.
\<close>

type_synonym path = "string list"

record launch_project =
  uri :: "string option"
  project_dir :: "path option"
  deps_type :: "string option"
  docker_image :: "string option"
  docker_user_id :: "int option"
  python_version :: "string option"

text \<open>Python's truth value of an optional string: \<^verbatim>\<open>None\<close> and \<^verbatim>\<open>""\<close> are false.\<close>

definition truthy :: "string option \<Rightarrow> bool" where
  "truthy v = (case v of None \<Rightarrow> False | Some s \<Rightarrow> s \<noteq> [])"

text \<open>
  What the process sees of its host: \<^verbatim>\<open>getpass.getuser()\<close>, which raises when no user
  name can be found, and \<^verbatim>\<open>os.geteuid()\<close>.
\<close>

record host =
  getuser :: "error + string"
  geteuid :: int

text \<open>
  \<^verbatim>\<open>
  def get_docker_user(launch_project, runner_type):
      username = getpass.getuser()
      if runner_type == "sagemaker" and not launch_project.docker_image:
          return username, 0
      userid = launch_project.docker_user_id or os.geteuid()
      return username, userid
  \<close>
  \<^verbatim>\<open>a or b\<close> on an optional integer yields \<open>b\<close> when \<open>a\<close> is \<^verbatim>\<open>None\<close> and also when it
  is \<open>0\<close>.
\<close>

definition or_else :: "int option \<Rightarrow> int \<Rightarrow> int" where
  "or_else a b = (case a of None \<Rightarrow> b | Some n \<Rightarrow> if n = 0 then b else n)"

definition get_docker_user :: "launch_project \<Rightarrow> string \<Rightarrow> host \<Rightarrow> error + (string \<times> int)" where
  "get_docker_user launch_project runner_type h =
     (case getuser h of
        Inl e \<Rightarrow> Inl e
      | Inr username \<Rightarrow>
          if runner_type = ''sagemaker'' \<and> \<not> truthy (docker_image launch_project)
          then Inr (username, 0)
          else Inr (username, or_else (docker_user_id launch_project) (geteuid h)))"

section \<open>The file system\<close>

text \<open>
  A file system maps a path to the node stored there.  A symbolic link holds its target
  text; \<open>follow p t\<close> is the path that the link stored at \<open>p\<close> with text \<open>t\<close> designates
  (the operating system's reading of relative and absolute targets).  Opening a path
  follows the links found there, at most 40 of them (the limit of Linux), and fails with
  \<open>TooManyLinks\<close> beyond.
\<close>

datatype node = File string | Link string | Dir

type_synonym filesystem = "path \<Rightarrow> node option"

fun resolve :: "nat \<Rightarrow> (path \<Rightarrow> string \<Rightarrow> path) \<Rightarrow> filesystem \<Rightarrow> path \<Rightarrow> error + path" where
  "resolve 0 fl fs p = (case fs p of Some (Link t) \<Rightarrow> Inl TooManyLinks | _ \<Rightarrow> Inr p)"
| "resolve (Suc n) fl fs p = (case fs p of Some (Link t) \<Rightarrow> resolve n fl fs (fl p t) | _ \<Rightarrow> Inr p)"

text \<open>\<^verbatim>\<open>os.path.exists\<close>: false for a missing path, a dangling link and a link loop.\<close>

definition path_exists :: "(path \<Rightarrow> string \<Rightarrow> path) \<Rightarrow> filesystem \<Rightarrow> path \<Rightarrow> bool" where
  "path_exists fl fs p = (case resolve 40 fl fs p of Inl e \<Rightarrow> False | Inr q \<Rightarrow> fs q \<noteq> None)"

text \<open>\<^verbatim>\<open>open(p).read()\<close>\<close>

definition read_text :: "(path \<Rightarrow> string \<Rightarrow> path) \<Rightarrow> filesystem \<Rightarrow> path \<Rightarrow> error + string" where
  "read_text fl fs p =
     (case resolve 40 fl fs p of
        Inl e \<Rightarrow> Inl e
      | Inr q \<Rightarrow>
          (case fs q of
             None \<Rightarrow> Inl FileNotFoundError
           | Some Dir \<Rightarrow> Inl IsADirectoryError
           | Some (File c) \<Rightarrow> Inr c
           | Some (Link t) \<Rightarrow> Inl TooManyLinks))"



section \<open>The requirements section of the build recipe\<close>

text \<open>
  What the functions print: \<^verbatim>\<open>wandb.termwarn\<close> and \<^verbatim>\<open>_logger.warn\<close>.  A function that
  prints returns the list of its messages, in order, beside its value.
\<close>

datatype message = TermWarn string | LoggerWarn string

text \<open>
  \<^verbatim>\<open>pkg_resources.parse_requirements\<close> is an external collaborator.  It is given as the
  function \<open>parse\<close> from the manifest's text to the outcomes of the successive \<^verbatim>\<open>next\<close>
  calls on its iterator, up to \<^verbatim>\<open>StopIteration\<close>: a requirement, or an exception with
  its text.  A requirement has the text \<^verbatim>\<open>str(pkg)\<close> and, when the object has the
  attribute, \<^verbatim>\<open>pkg.name\<close>.
\<close>

record requirement =
  req_name :: "string option"
  req_str :: string

datatype parse_outcome = Parsed requirement | ParseFailure string

text \<open>\<^verbatim>\<open>str.lower\<close> on the ASCII letters, which is all a package name's letters can be.\<close>

definition lower_char :: "char \<Rightarrow> char" where
  "lower_char c =
     (case map_of (zip ''ABCDEFGHIJKLMNOPQRSTUVWXYZ'' ''abcdefghijklmnopqrstuvwxyz'') c of
        Some l \<Rightarrow> l
      | None \<Rightarrow> c)"

definition str_lower :: "string \<Rightarrow> string" where
  "str_lower s = map lower_char s"

text \<open>
  The loop of \<^verbatim>\<open>_parse_existing_requirements\<close>:
  \<^verbatim>\<open>
  while True:
      try:
          pkg = next(iter)
          if hasattr(pkg, "name"): name = pkg.name.lower()
          else: name = str(pkg)
          include_only.add(shlex_quote(name))
      except StopIteration: break
      except Exception as e:
          _logger.warn(f"Unable to parse requirements.txt: {e}")
          continue
  \<close>
  It returns the elements added to the set, in the order of the additions, and the
  warnings.
\<close>

definition include_name :: "requirement \<Rightarrow> string" where
  "include_name pkg =
     shlex_quote (case req_name pkg of Some n \<Rightarrow> str_lower n | None \<Rightarrow> req_str pkg)"

fun include_loop :: "parse_outcome list \<Rightarrow> string list \<times> message list" where
  "include_loop [] = ([], [])"
| "include_loop (Parsed pkg # rest) =
     (case include_loop rest of (names, msgs) \<Rightarrow> (include_name pkg # names, msgs))"
| "include_loop (ParseFailure e # rest) =
     (case include_loop rest of (names, msgs) \<Rightarrow>
        (names, LoggerWarn (''Unable to parse requirements.txt: '' @ e) # msgs))"

text \<open>
  \<^verbatim>\<open>
  def _parse_existing_requirements(launch_project):
      requirements_line = ""
      assert launch_project.project_dir is not None
      base_requirements = os.path.join(launch_project.project_dir, "requirements.txt")
      if os.path.exists(base_requirements):
          include_only = set()
          with open(base_requirements) as f:
              iter = pkg_resources.parse_requirements(f)
              (the loop)
          requirements_line += "WANDB_ONLY_INCLUDE={} ".format(",".join(include_only))
      return requirements_line
  \<close>
  A Python set iterates in an order of its own: \<open>set_order\<close> maps the sequence of additions
  to the order in which the resulting set is iterated.
\<close>

definition parse_existing_requirements ::
  "(string \<Rightarrow> parse_outcome list) \<Rightarrow> (string list \<Rightarrow> string list) \<Rightarrow>
   (path \<Rightarrow> string \<Rightarrow> path) \<Rightarrow> filesystem \<Rightarrow> launch_project \<Rightarrow> error + (string \<times> message list)" where
  "parse_existing_requirements parse set_order fl fs launch_project =
     (case project_dir launch_project of
        None \<Rightarrow> Inl (AssertionError [])
      | Some d \<Rightarrow>
          if path_exists fl fs (d @ [''requirements.txt''])
          then (case read_text fl fs (d @ [''requirements.txt'']) of
                  Inl e \<Rightarrow> Inl e
                | Inr manifest \<Rightarrow>
                    (case include_loop (parse manifest) of (names, msgs) \<Rightarrow>
                       Inr (''WANDB_ONLY_INCLUDE='' @ py_join '','' (set_order names) @ '' '', msgs)))
          else Inr ([], []))"

text \<open>
  A condition on the set's order: an iteration order lists each element of the set
  once.  And the requirements that the parser yields, in order.
\<close>

definition iteration_order :: "(string list \<Rightarrow> string list) \<Rightarrow> bool" where
  "iteration_order set_order = (\<forall>ns. distinct (set_order ns) \<and> set (set_order ns) = set ns)"

fun yielded :: "parse_outcome list \<Rightarrow> requirement list" where
  "yielded [] = []"
| "yielded (Parsed pkg # rest) = pkg # yielded rest"
| "yielded (ParseFailure e # rest) = yielded rest"

text \<open>The templates, with \<^verbatim>\<open>str.format\<close> applied to their fields.\<close>

definition PIP_TEMPLATE :: "string \<Rightarrow> string \<Rightarrow> string \<Rightarrow> string" where
  \<open>PIP_TEMPLATE buildx_optional_prefix requirements_files pip_install =
     [newline] @ ''RUN python -m venv /env'' @ [newline]
     @ ''# make sure we install into the env'' @ [newline]
     @ ''ENV PATH="/env/bin:$PATH"'' @ [newline]
     @ ''COPY '' @ requirements_files @ '' ./'' @ [newline]
     @ buildx_optional_prefix @ '' '' @ pip_install @ [newline]\<close>

definition CONDA_TEMPLATE :: "string \<Rightarrow> string" where
  "CONDA_TEMPLATE buildx_optional_prefix =
     [newline] @ ''COPY src/environment.yml .'' @ [newline]
     @ buildx_optional_prefix @ '' conda env create -f environment.yml -n env'' @ [newline]
     @ [newline]
     @ ''# pack the environment so that we can transfer to the base image'' @ [newline]
     @ ''RUN conda install -c conda-forge conda-pack'' @ [newline]
     @ ''RUN conda pack -n env -o /tmp/env.tar &&     mkdir /env && cd /env && tar xf /tmp/env.tar &&     rm /tmp/env.tar'' @ [newline]
     @ ''RUN /env/bin/conda-unpack'' @ [newline]"

definition DISABLE_CACHE :: string where
  "DISABLE_CACHE = ''RUN WANDB_DISABLE_CACHE=true''"

definition PIP_CACHE_MOUNT :: string where
  "PIP_CACHE_MOUNT = ''RUN --mount=type=cache,mode=0777,target=/root/.cache/pip''"

definition CONDA_CACHE_MOUNT :: string where
  "CONDA_CACHE_MOUNT = ''RUN --mount=type=cache,mode=0777,target=/opt/conda/pkgs''"

definition BUILDX_WARNING :: string where
  "BUILDX_WARNING = ''Docker BuildX is not installed, for faster builds upgrade docker: https://github.com/docker/buildx#installing''"

text \<open>
  \<^verbatim>\<open>get_requirements_section(launch_project, builder_type)\<close>.  The locals \<^verbatim>\<open>prefix\<close>,
  \<^verbatim>\<open>buildx_installed\<close> and \<^verbatim>\<open>pip_install_line\<close> are assigned on some paths only; they
  are options here, and reading one that is unassigned raises \<^verbatim>\<open>UnboundLocalError\<close>.
  \<open>buildx_probe\<close> is what \<^verbatim>\<open>docker.is_buildx_installed()\<close> returns.

  The first block of the function, which depends on the builder alone:
  \<^verbatim>\<open>
  if builder_type == "docker":
      buildx_installed = docker.is_buildx_installed()
      if not buildx_installed:
          wandb.termwarn("Docker BuildX is not installed, ...")
          prefix = "RUN WANDB_DISABLE_CACHE=true"
  elif builder_type == "kaniko":
      prefix = "RUN WANDB_DISABLE_CACHE=true"
      buildx_installed = False
  \<close>
\<close>

definition builder_block :: "bool \<Rightarrow> string \<Rightarrow> string option \<times> bool option \<times> message list" where
  "builder_block buildx_probe builder_type =
     (if builder_type = ''docker'' then
        (if \<not> buildx_probe then (Some DISABLE_CACHE, Some buildx_probe, [TermWarn BUILDX_WARNING])
         else (None, Some buildx_probe, []))
      else if builder_type = ''kaniko'' then (Some DISABLE_CACHE, Some False, [])
      else (None, None, []))"

text \<open>
  The rest:
  \<^verbatim>\<open>
  if launch_project.deps_type == "pip":
      requirements_files = []
      if launch_project.project_dir is not None and os.path.exists(
          os.path.join(launch_project.project_dir, "requirements.txt")):
          requirements_files += ["src/requirements.txt"]
          pip_install_line = "pip install -r requirements.txt"
      if launch_project.project_dir is not None and os.path.exists(
          os.path.join(launch_project.project_dir, "requirements.frozen.txt")):
          requirements_files += ["src/requirements.frozen.txt", "_wandb_bootstrap.py"]
          pip_install_line = (_parse_existing_requirements(launch_project)
                              + "python _wandb_bootstrap.py")
      if buildx_installed:
          prefix = "RUN --mount=type=cache,mode=0777,target=/root/.cache/pip"
      requirements_line = PIP_TEMPLATE.format(
          buildx_optional_prefix=prefix,
          requirements_files=" ".join(requirements_files),
          pip_install=pip_install_line)
  elif launch_project.deps_type == "conda":
      if buildx_installed:
          prefix = "RUN --mount=type=cache,mode=0777,target=/opt/conda/pkgs"
      requirements_line = CONDA_TEMPLATE.format(buildx_optional_prefix=prefix)
  else:
      requirements_line = "RUN mkdir -p env/"
      wandb.termwarn("No requirements file found. No packages will be installed.")
  return requirements_line
  \<close>
\<close>

definition in_project :: "(path \<Rightarrow> string \<Rightarrow> path) \<Rightarrow> filesystem \<Rightarrow> launch_project \<Rightarrow> string \<Rightarrow> bool" where
  "in_project fl fs launch_project name =
     (case project_dir launch_project of
        None \<Rightarrow> False
      | Some d \<Rightarrow> path_exists fl fs (d @ [name]))"

definition pip_files_and_install ::
  "(string \<Rightarrow> parse_outcome list) \<Rightarrow> (string list \<Rightarrow> string list) \<Rightarrow>
   (path \<Rightarrow> string \<Rightarrow> path) \<Rightarrow> filesystem \<Rightarrow> launch_project \<Rightarrow>
   error + (string list \<times> string option \<times> message list)" where
  "pip_files_and_install parse set_order fl fs launch_project =
     (let plain = in_project fl fs launch_project ''requirements.txt'';
          files1 = (if plain then [''src/requirements.txt''] else []);
          line1 = (if plain then Some ''pip install -r requirements.txt'' else None)
      in if in_project fl fs launch_project ''requirements.frozen.txt''
         then (case parse_existing_requirements parse set_order fl fs launch_project of
                 Inl e \<Rightarrow> Inl e
               | Inr (include_only, msgs) \<Rightarrow>
                   Inr (files1 @ [''src/requirements.frozen.txt'', ''_wandb_bootstrap.py''],
                        Some (include_only @ ''python _wandb_bootstrap.py''), msgs))
         else Inr (files1, line1, []))"

definition get_requirements_section ::
  "bool \<Rightarrow> (string \<Rightarrow> parse_outcome list) \<Rightarrow> (string list \<Rightarrow> string list) \<Rightarrow>
   (path \<Rightarrow> string \<Rightarrow> path) \<Rightarrow> filesystem \<Rightarrow> launch_project \<Rightarrow> string \<Rightarrow>
   error + (string \<times> message list)" where
  "get_requirements_section buildx_probe parse set_order fl fs launch_project builder_type =
     (case builder_block buildx_probe builder_type of (prefix0, buildx_installed, msgs0) \<Rightarrow>
        if deps_type launch_project = Some ''pip'' then
          (case pip_files_and_install parse set_order fl fs launch_project of
             Inl e \<Rightarrow> Inl e
           | Inr (requirements_files, pip_install_line, msgs1) \<Rightarrow>
               (case buildx_installed of
                  None \<Rightarrow> Inl (UnboundLocalError ''buildx_installed'')
                | Some b \<Rightarrow>
                    (case (if b then Some PIP_CACHE_MOUNT else prefix0) of
                       None \<Rightarrow> Inl (UnboundLocalError ''prefix'')
                     | Some the_prefix \<Rightarrow>
                         (case pip_install_line of
                            None \<Rightarrow> Inl (UnboundLocalError ''pip_install_line'')
                          | Some pip_install \<Rightarrow>
                              Inr (PIP_TEMPLATE the_prefix (py_join '' '' requirements_files) pip_install,
                                   msgs0 @ msgs1)))))
        else if deps_type launch_project = Some ''conda'' then
          (case buildx_installed of
             None \<Rightarrow> Inl (UnboundLocalError ''buildx_installed'')
           | Some b \<Rightarrow>
               (case (if b then Some CONDA_CACHE_MOUNT else prefix0) of
                  None \<Rightarrow> Inl (UnboundLocalError ''prefix'')
                | Some the_prefix \<Rightarrow> Inr (CONDA_TEMPLATE the_prefix, msgs0)))
        else Inr (''RUN mkdir -p env/'',
                  msgs0 @ [TermWarn ''No requirements file found. No packages will be installed.'']))"


section \<open>Staging the build context\<close>

text \<open>\<^verbatim>\<open>os.mkdir\<close>: the directory must be new and its parent a directory.\<close>

definition mkdir :: "filesystem \<Rightarrow> path \<Rightarrow> error + filesystem" where
  "mkdir fs p =
     (if p = [] \<or> fs p \<noteq> None then Inl FileExistsError
      else (case fs (butlast p) of
              Some Dir \<Rightarrow> Inr (fs(p \<mapsto> Dir))
            | Some (File x) \<Rightarrow> Inl NotADirectoryError
            | _ \<Rightarrow> Inl FileNotFoundError))"




text \<open>\<open>relative d q\<close>: the path of \<open>q\<close> relative to \<open>d\<close>, when \<open>q\<close> is \<open>d\<close> or lies below it.\<close>

fun relative :: "path \<Rightarrow> path \<Rightarrow> path option" where
  "relative [] q = Some q"
| "relative (c # cs) [] = None"
| "relative (c # cs) (x # xs) = (if c = x then relative cs xs else None)"













section \<open>Dispatching the build\<close>














section \<open>The image tag\<close>

text \<open>
  The tag is computed from arbitrary \<^verbatim>\<open>str\<close> values, so here a \<^verbatim>\<open>str\<close> is the list of
  its code points, each below \<open>0x110000\<close>.  \<^verbatim>\<open>s.encode("utf-8")\<close> encodes a code point
  in one to four bytes and raises \<^verbatim>\<open>UnicodeEncodeError\<close> at a surrogate (\<open>0xD800\<close> to
  \<open>0xDFFF\<close>), which Python strings may hold.  A byte is a natural number below 256.
\<close>

type_synonym unicode = "nat list"

definition is_str :: "unicode \<Rightarrow> bool" where
  "is_str s = list_all (\<lambda>c. c < 0x110000) s"

definition surrogate :: "nat \<Rightarrow> bool" where
  "surrogate c = (0xD800 \<le> c \<and> c \<le> 0xDFFF)"

definition utf8_bytes :: "nat \<Rightarrow> nat list" where
  "utf8_bytes c =
     (if c < 0x80 then [c]
      else if c < 0x800 then [0xC0 + c div 64, 0x80 + c mod 64]
      else if c < 0x10000 then [0xE0 + c div 4096, 0x80 + c div 64 mod 64, 0x80 + c mod 64]
      else [0xF0 + c div 262144 mod 8, 0x80 + c div 4096 mod 64, 0x80 + c div 64 mod 64,
            0x80 + c mod 64])"

text \<open>A string that UTF-8 can encode: no code point is a surrogate.\<close>

definition encodable :: "unicode \<Rightarrow> bool" where
  "encodable s = list_all (\<lambda>c. c < 0x110000 \<and> \<not> surrogate c) s"

text \<open>The code points of a string of ASCII characters.\<close>

definition code_points :: "string \<Rightarrow> unicode" where
  "code_points s = map of_char s"

fun utf8_encode :: "unicode \<Rightarrow> error + nat list" where
  "utf8_encode [] = Inr []"
| "utf8_encode (c # cs) =
     (if surrogate c \<or> \<not> c < 0x110000 then Inl UnicodeEncodeError
      else (case utf8_encode cs of Inl e \<Rightarrow> Inl e | Inr rest \<Rightarrow> Inr (utf8_bytes c @ rest)))"

subsection \<open>SHA-256 (FIPS 180-4), as \<^verbatim>\<open>hashlib.sha256\<close> computes it\<close>

text \<open>
  A 32-bit word is a natural number below \<open>2 ^ 32\<close>; addition wraps, and rotation and
  shift are written with \<open>div\<close> and \<open>mod\<close>.
\<close>

definition add32 :: "nat \<Rightarrow> nat \<Rightarrow> nat" where
  "add32 x y = (x + y) mod 4294967296"

definition rotr :: "nat \<Rightarrow> nat \<Rightarrow> nat" where
  "rotr n x = x div 2 ^ n + (x mod 2 ^ n) * 2 ^ (32 - n)"

definition shr :: "nat \<Rightarrow> nat \<Rightarrow> nat" where
  "shr n x = x div 2 ^ n"

definition Ch :: "nat \<Rightarrow> nat \<Rightarrow> nat \<Rightarrow> nat" where
  "Ch e f g = (e AND f) XOR ((4294967295 - e) AND g)"

definition Maj :: "nat \<Rightarrow> nat \<Rightarrow> nat \<Rightarrow> nat" where
  "Maj a b c = (a AND b) XOR (a AND c) XOR (b AND c)"

definition bsig0 :: "nat \<Rightarrow> nat" where
  "bsig0 x = rotr 2 x XOR rotr 13 x XOR rotr 22 x"

definition bsig1 :: "nat \<Rightarrow> nat" where
  "bsig1 x = rotr 6 x XOR rotr 11 x XOR rotr 25 x"

definition ssig0 :: "nat \<Rightarrow> nat" where
  "ssig0 x = rotr 7 x XOR rotr 18 x XOR shr 3 x"

definition ssig1 :: "nat \<Rightarrow> nat" where
  "ssig1 x = rotr 17 x XOR rotr 19 x XOR shr 10 x"

text \<open>
  The round constants (the first 32 bits of the fractional parts of the cube roots of the
  first 64 primes) and the initial hash value (the same of the square roots of the first
  8 primes).
\<close>

definition K256 :: "nat list" where
  "K256 =
     [1116352408, 1899447441, 3049323471, 3921009573, 961987163, 1508970993,
      2453635748, 2870763221, 3624381080, 310598401, 607225278, 1426881987,
      1925078388, 2162078206, 2614888103, 3248222580, 3835390401, 4022224774,
      264347078, 604807628, 770255983, 1249150122, 1555081692, 1996064986,
      2554220882, 2821834349, 2952996808, 3210313671, 3336571891, 3584528711,
      113926993, 338241895, 666307205, 773529912, 1294757372, 1396182291,
      1695183700, 1986661051, 2177026350, 2456956037, 2730485921, 2820302411,
      3259730800, 3345764771, 3516065817, 3600352804, 4094571909, 275423344,
      430227734, 506948616, 659060556, 883997877, 958139571, 1322822218,
      1537002063, 1747873779, 1955562222, 2024104815, 2227730452, 2361852424,
      2428436474, 2756734187, 3204031479, 3329325298]"

definition H256 :: "nat list" where
  "H256 = [1779033703, 3144134277, 1013904242, 2773480762,
           1359893119, 2600822924, 528734635, 1541459225]"

text \<open>
  The message schedule: \<open>w\<close> holds the last sixteen words, oldest first, and
  \<open>schedule n w\<close> the next \<open>n\<close> words.
\<close>

definition sched_next :: "nat list \<Rightarrow> nat" where
  "sched_next w = add32 (add32 (add32 (ssig1 (w ! 14)) (w ! 9)) (ssig0 (w ! 1))) (w ! 0)"

fun schedule :: "nat \<Rightarrow> nat list \<Rightarrow> nat list" where
  "schedule 0 w = []"
| "schedule (Suc n) w = sched_next w # schedule n (tl w @ [sched_next w])"

text \<open>One round on the working variables \<open>a\<close> to \<open>h\<close>, with the round's constant and word.\<close>

fun round256 :: "nat list \<Rightarrow> nat \<times> nat \<Rightarrow> nat list" where
  "round256 [a, b, c, d, e, f, g, h] (k, w) =
     (let t1 = add32 (add32 (add32 (add32 h (bsig1 e)) (Ch e f g)) k) w;
          t2 = add32 (bsig0 a) (Maj a b c)
      in [add32 t1 t2, a, b, c, add32 d t1, e, f, g])"
| "round256 s kw = s"

definition compress :: "nat list \<Rightarrow> nat list \<Rightarrow> nat list" where
  "compress h m = map2 add32 h (foldl round256 h (zip K256 (m @ schedule 48 m)))"

text \<open>Padding, the split into big-endian words, and the split into blocks of sixteen words.\<close>

definition pad :: "nat list \<Rightarrow> nat list" where
  "pad m = m @ [0x80] @ replicate ((119 - length m mod 64) mod 64) 0
           @ map (\<lambda>i. (8 * length m) div 256 ^ i mod 256) [7, 6, 5, 4, 3, 2, 1, 0]"

fun be32 :: "nat list \<Rightarrow> nat list" where
  "be32 (a # b # c # d # r) = (a * 16777216 + b * 65536 + c * 256 + d) # be32 r"
| "be32 r = []"

function blocks :: "nat list \<Rightarrow> nat list list" where
  "blocks ws = (if length ws < 16 then [] else take 16 ws # blocks (drop 16 ws))"
  by pat_completeness auto
termination
  by (relation "measure length") auto

definition word_bytes :: "nat \<Rightarrow> nat list" where
  "word_bytes w = [w div 16777216 mod 256, w div 65536 mod 256, w div 256 mod 256, w mod 256]"

definition sha256 :: "nat list \<Rightarrow> nat list" where
  "sha256 m = concat (map word_bytes (foldl compress H256 (blocks (be32 (pad m)))))"

text \<open>\<^verbatim>\<open>.hexdigest()\<close>: two lowercase hexadecimal digits for each byte.\<close>

definition hex_digit :: "nat \<Rightarrow> char" where
  "hex_digit n = ''0123456789abcdef'' ! (n mod 16)"

definition lower_hex :: "char \<Rightarrow> bool" where
  "lower_hex c = (c \<in> set ''0123456789abcdef'')"

definition hexdigest :: "nat list \<Rightarrow> string" where
  "hexdigest bytes = concat (map (\<lambda>b. [hex_digit (b div 16), hex_digit b]) bytes)"

text \<open>
  \<^verbatim>\<open>
  def image_tag_from_dockerfile_and_source(launch_project, dockerfile_contents):
      image_source_string = launch_project.get_image_source_string()
      unique_id_string = image_source_string + dockerfile_contents
      image_tag = hashlib.sha256(unique_id_string.encode("utf-8")).hexdigest()[:8]
      return image_tag
  \<close>
  \<^verbatim>\<open>get_image_source_string\<close> is defined outside the module; its outcome is the first
  argument.
\<close>

definition image_tag_from_dockerfile_and_source :: "error + unicode \<Rightarrow> unicode \<Rightarrow> error + string" where
  "image_tag_from_dockerfile_and_source image_source dockerfile_contents =
     (case image_source of
        Inl e \<Rightarrow> Inl e
      | Inr image_source_string \<Rightarrow>
          (case utf8_encode (image_source_string @ dockerfile_contents) of
             Inl e \<Rightarrow> Inl e
           | Inr bytes \<Rightarrow> Inr (take 8 (hexdigest (sha256 bytes)))))"

text \<open>The tag operation of the specification, on an identity string and a recipe text.\<close>

definition image_tag :: "unicode \<Rightarrow> unicode \<Rightarrow> error + string" where
  "image_tag ident recipe = image_tag_from_dockerfile_and_source (Inr ident) recipe"


section \<open>Example inputs\<close>

text \<open>
  Concrete inputs at which the theorems below are instantiated: a project directory
  \<^verbatim>\<open>/proj\<close> with both manifests, with the plain manifest only, and with neither; a
  parser that yields three requirements; and a few project descriptors.
\<close>

definition demo_fs :: filesystem where
  "demo_fs p =
     (if p = [] \<or> p = [''proj''] then Some Dir
      else if p = [''proj'', ''requirements.txt''] then Some (File ''numpy==1.2 Pandas numpy'')
      else if p = [''proj'', ''requirements.frozen.txt''] then Some (File ''numpy==1.2 pandas==2.0 six==1.16'')
      else None)"

definition demo_parse :: "string \<Rightarrow> parse_outcome list" where
  "demo_parse manifest =
     [Parsed \<lparr>req_name = Some ''numpy'', req_str = ''numpy==1.2''\<rparr>,
      Parsed \<lparr>req_name = Some ''Pandas'', req_str = ''Pandas''\<rparr>,
      Parsed \<lparr>req_name = Some ''numpy'', req_str = ''numpy''\<rparr>]"

definition unnamed_parse :: "string \<Rightarrow> parse_outcome list" where
  "unnamed_parse manifest = [Parsed \<lparr>req_name = None, req_str = ''Numpy==1.2''\<rparr>]"

definition demo_project :: launch_project where
  "demo_project =
     \<lparr>uri = Some ''https://github.com/wandb/examples'', project_dir = Some [''proj''],
      deps_type = Some ''pip'', docker_image = None, docker_user_id = None,
      python_version = Some ''3.9.1''\<rparr>"

definition bare_fs :: filesystem where
  "bare_fs p = (if p = [] \<or> p = [''proj''] then Some Dir else None)"

definition plain_fs :: filesystem where
  "plain_fs p =
     (if p = [] \<or> p = [''proj''] then Some Dir
      else if p = [''proj'', ''requirements.txt''] then Some (File ''numpy==1.2'')
      else None)"

definition conda_project :: launch_project where
  "conda_project = demo_project\<lparr>deps_type := Some ''conda''\<rparr>"

definition none_project :: launch_project where
  "none_project = demo_project\<lparr>deps_type := None\<rparr>"

definition root_project :: launch_project where
  "root_project = demo_project\<lparr>docker_user_id := Some 0\<rparr>"

definition demo_host :: host where
  "demo_host = \<lparr>getuser = Inr ''alice'', geteuid = 1000\<rparr>"












section \<open>Properties of \<^verbatim>\<open>join\<close>\<close>

lemma str_replace_delete: "str_replace s c [] = filter (\<lambda>x. x \<noteq> c) s"
  by (induction s) (simp_all add: str_replace_def)

lemma str_replace_absent: "c \<notin> set s \<Longrightarrow> str_replace s c new = s"
  by (induction s) (auto simp: str_replace_def)

lemma str_replace_Cons:
  "str_replace (c # s) old new = (if c = old then new else [c]) @ str_replace s old new"
  by (simp add: str_replace_def)

lemma safe_char_plain:
  assumes "safe_char c"
  shows "c \<noteq> CHR '' ''" "c \<noteq> CHR 0x09" "c \<noteq> squote" "c \<noteq> dquote" "c \<noteq> backslash"
  using assms by (auto simp: safe_char_def squote_def dquote_def backslash_def)

lemma lex_safe_run:
  "list_all safe_char s \<Longrightarrow> s \<noteq> [] \<or> started \<Longrightarrow>
   sh_lex Unquoted w started (s @ rest) = sh_lex Unquoted (w @ s) True rest"
proof (induction s arbitrary: w started)
  case Nil
  then show ?case by simp
next
  case (Cons c s)
  from Cons.prems have c: "safe_char c" and s: "list_all safe_char s" by simp_all
  have "sh_lex Unquoted w started ((c # s) @ rest) = sh_lex Unquoted (w @ [c]) True (s @ rest)"
    using safe_char_plain [OF c] c by simp
  also have "\<dots> = sh_lex Unquoted ((w @ [c]) @ s) True rest"
    using Cons.IH [OF s, of True "w @ [c]"] by simp
  finally show ?case by simp
qed

lemma lex_single_body:
  "sh_lex InSingle w started (str_replace s squote [squote, dquote, squote, dquote, squote] @ squote # rest)
   = sh_lex Unquoted (w @ s) True rest"
proof (induction s arbitrary: w started)
  case Nil
  then show ?case by (simp add: str_replace_def)
next
  case (Cons c s)
  let ?body = "str_replace s squote [squote, dquote, squote, dquote, squote] @ squote # rest"
  show ?case
  proof (cases "c = squote")
    case True
    have ne: "squote \<noteq> dquote" "squote \<noteq> backslash" "squote \<noteq> CHR ''$''" "squote \<noteq> CHR 0x60" "dquote \<noteq> CHR '' ''"
      "dquote \<noteq> CHR 0x09" "dquote \<noteq> squote" "squote \<noteq> CHR '' ''" "squote \<noteq> CHR 0x09"
      by (simp_all add: squote_def dquote_def backslash_def)
    have "sh_lex InSingle w started (str_replace (c # s) squote [squote, dquote, squote, dquote, squote] @ squote # rest)
          = sh_lex InSingle w started (squote # dquote # squote # dquote # squote # ?body)"
      using True by (simp add: str_replace_Cons)
    also have "\<dots> = sh_lex InSingle (w @ [squote]) True ?body"
      using ne by simp
    also have "\<dots> = sh_lex Unquoted (w @ c # s) True rest"
      using Cons.IH [of "w @ [squote]" True] True by simp
    finally show ?thesis .
  next
    case False
    then show ?thesis
      using Cons.IH [of "w @ [c]" True] by (simp add: str_replace_Cons)
  qed
qed

lemma lex_quote:
  "sh_lex Unquoted [] False (shlex_quote s @ rest) = sh_lex Unquoted s True rest"
proof -
  have ne: "squote \<noteq> CHR '' ''" "squote \<noteq> CHR 0x09"
    by (simp_all add: squote_def)
  consider "s = []" | "s \<noteq> []" "list_all safe_char s" | "s \<noteq> []" "\<not> list_all safe_char s"
    by blast
  then show ?thesis
  proof cases
    case 1
    then show ?thesis using ne by (simp add: shlex_quote_def)
  next
    case 2
    then show ?thesis
      using lex_safe_run [of s False "[]" rest] by (simp add: shlex_quote_def)
  next
    case 3
    then show ?thesis
      using ne lex_single_body [of "[]" True s rest] by (simp add: shlex_quote_def)
  qed
qed

lemma sh_words_quoted: "sh_words (py_join '' '' (map shlex_quote xs)) = Some xs"
proof (induction xs)
  case Nil
  show ?case by (simp add: sh_words_def)
next
  case (Cons x xs)
  show ?case
  proof (cases xs)
    case Nil
    then show ?thesis using lex_quote [of x "[]"] by (simp add: sh_words_def)
  next
    case (Cons y ys)
    let ?tail = "py_join '' '' (map shlex_quote (y # ys))"
    have "sh_words (py_join '' '' (map shlex_quote (x # xs)))
          = sh_lex Unquoted x True (CHR '' '' # ?tail)"
      using lex_quote [of x "CHR '' '' # ?tail"] Cons by (simp add: sh_words_def)
    also have "\<dots> = Some (x # xs)"
      using Cons.IH Cons by (simp add: sh_words_def)
    finally show ?thesis .
  qed
qed

lemma join_filter:
  "join xs = py_join '' '' (map shlex_quote (map (filter (\<lambda>c. c \<noteq> squote)) xs))"
  by (simp add: join_def str_replace_delete comp_def)

lemma filter_sq_id: "filter (\<lambda>c. c \<noteq> squote) a = a \<longleftrightarrow> squote \<notin> set a"
  by (auto simp: filter_id_conv)

lemma map_filter_sq_id:
  "map (filter (\<lambda>c. c \<noteq> squote)) xs = xs \<longleftrightarrow> list_all (\<lambda>a. squote \<notin> set a) xs"
  by (induction xs) (simp_all add: filter_sq_id)

text \<open>
  Claim C10.  \<^verbatim>\<open>join\<close> deletes every single quote from each token and then
  shell-quotes what is left.  A shell therefore reads back the tokens without their
  single quotes: when some token contains a single quote the serialised command is not
  a faithful escaping of the original tokens, and when none does the result is the
  standard \<^verbatim>\<open>shlex.join\<close>, which a shell reads back unchanged.
\<close>

theorem join_drops_single_quotes:
  "join xs = py_join '' '' (map (\<lambda>a. shlex_quote (filter (\<lambda>c. c \<noteq> squote) a)) xs)
   \<and> sh_words (join xs) = Some (map (filter (\<lambda>c. c \<noteq> squote)) xs)
   \<and> (list_ex (\<lambda>a. squote \<in> set a) xs \<longrightarrow> sh_words (join xs) \<noteq> Some xs)
   \<and> (list_all (\<lambda>a. squote \<notin> set a) xs \<longrightarrow>
        join xs = shlex_join xs \<and> sh_words (join xs) = Some xs)
   \<and> sh_words (shlex_join xs) = Some xs"
proof -
  have words: "sh_words (join xs) = Some (map (filter (\<lambda>c. c \<noteq> squote)) xs)"
    unfolding join_filter by (rule sh_words_quoted)
  have lossy: "sh_words (join xs) \<noteq> Some xs" if "list_ex (\<lambda>a. squote \<in> set a) xs"
  proof -
    from that have "\<not> list_all (\<lambda>a. squote \<notin> set a) xs"
      by (simp add: list_ex_iff list_all_iff)
    then show ?thesis
      using words map_filter_sq_id [of xs] by simp
  qed
  have same: "join xs = shlex_join xs \<and> sh_words (join xs) = Some xs"
    if "list_all (\<lambda>a. squote \<notin> set a) xs"
  proof -
    from that have eq: "map (filter (\<lambda>c. c \<noteq> squote)) xs = xs"
      by (simp only: map_filter_sq_id)
    have "join xs = shlex_join xs"
      by (simp only: join_filter shlex_join_def eq)
    moreover have "sh_words (join xs) = Some xs"
      using words by (simp only: eq)
    ultimately show ?thesis by simp
  qed
  have std: "sh_words (shlex_join xs) = Some xs"
    unfolding shlex_join_def by (rule sh_words_quoted)
  show ?thesis
    using words lossy same std by (simp add: join_def str_replace_delete)
qed

theorem join_drops_single_quotes_witness:
  "squote \<in> set [CHR ''i'', CHR ''t'', squote, CHR ''s'']
   \<and> join [''echo'', [CHR ''i'', CHR ''t'', squote, CHR ''s'']] = ''echo its''
   \<and> sh_words (join [''echo'', [CHR ''i'', CHR ''t'', squote, CHR ''s'']]) = Some [''echo'', ''its'']
   \<and> sh_words (join [''echo'', [CHR ''i'', CHR ''t'', squote, CHR ''s'']])
       \<noteq> Some [''echo'', [CHR ''i'', CHR ''t'', squote, CHR ''s'']]
   \<and> squote \<notin> set ''python'' \<and> squote \<notin> set ''a b.py''
   \<and> join [''python'', ''a b.py''] = shlex_join [''python'', ''a b.py'']
   \<and> sh_words (join [''python'', ''a b.py'']) = Some [''python'', ''a b.py'']"
proof -
  let ?its = "[CHR ''i'', CHR ''t'', squote, CHR ''s'']"
  note lossy = join_drops_single_quotes [of "[''echo'', ?its]"]
  note plain = join_drops_single_quotes [of "[''python'', ''a b.py'']"]
  have q: "list_ex (\<lambda>a. squote \<in> set a) [''echo'', ?its]"
    by simp
  have p: "list_all (\<lambda>a. squote \<notin> set a) [''python'', ''a b.py'']"
    by (simp add: squote_def)
  have c1: "squote \<in> set ?its" by simp
  have c2: "join [''echo'', ?its] = ''echo its''"
    by (simp add: join_def str_replace_def shlex_quote_def safe_char_def squote_def)
  have "sh_words (join [''echo'', ?its]) = Some (map (filter (\<lambda>c. c \<noteq> squote)) [''echo'', ?its])"
    using lossy by blast
  then have c3: "sh_words (join [''echo'', ?its]) = Some [''echo'', ''its'']"
    by (simp add: squote_def)
  have c4: "sh_words (join [''echo'', ?its]) \<noteq> Some [''echo'', ?its]"
    using lossy q by blast
  have c5: "squote \<notin> set ''python''" "squote \<notin> set ''a b.py''"
    by (simp_all add: squote_def)
  have c6: "join [''python'', ''a b.py''] = shlex_join [''python'', ''a b.py'']"
    and c7: "sh_words (join [''python'', ''a b.py'']) = Some [''python'', ''a b.py'']"
    using plain p by blast+
  show ?thesis
    using c1 c2 c3 c4 c5 c6 c7 by blast
qed

section \<open>Properties of the docker user\<close>

text \<open>
  What \<^verbatim>\<open>get_docker_user\<close> resolves: uid 0 for the runner \<^verbatim>\<open>sagemaker\<close> when the
  descriptor has no docker image, whatever the override; otherwise the override when it
  is present and not zero, and the host's effective uid when it is absent or zero.
\<close>

lemma get_docker_user_resolved:
  assumes "getuser h = Inr username"
  shows "get_docker_user launch_project runner_type h
         = Inr (username,
                if runner_type = ''sagemaker'' \<and> \<not> truthy (docker_image launch_project) then 0
                else (case docker_user_id launch_project of
                        None \<Rightarrow> geteuid h
                      | Some n \<Rightarrow> if n = 0 then geteuid h else n))"
  using assms by (simp add: get_docker_user_def or_else_def)

text \<open>
  Claim C2 says that outside the root-forcing case the uid equals the descriptor's
  override when one is present.  With the override 0 (root) on a host whose effective
  uid is 1000, for the runner \<^verbatim>\<open>local\<close>, the code resolves 1000.
\<close>

theorem get_docker_user_zero_override:
  "docker_user_id root_project = Some 0
   \<and> get_docker_user root_project ''local'' demo_host = Inr (''alice'', 1000)"
  by (simp add: get_docker_user_def or_else_def root_project_def demo_project_def demo_host_def)


section \<open>Properties of the requirements section\<close>

lemma read_text_exists: "read_text fl fs p = Inr c \<Longrightarrow> path_exists fl fs p"
  by (auto simp: read_text_def path_exists_def split: sum.splits option.splits node.splits)

lemma include_loop_names:
  "fst (include_loop outcomes) = map include_name (yielded outcomes)"
  by (induction outcomes rule: include_loop.induct) (auto split: prod.splits)

lemma demo_read:
  "read_text (\<lambda>p t. []) demo_fs [''proj'', ''requirements.txt''] = Inr ''numpy==1.2 Pandas numpy''"
  by (simp add: read_text_def demo_fs_def eval_nat_numeral)

lemma demo_exists: "path_exists (\<lambda>p t. []) demo_fs [''proj'', ''requirements.frozen.txt'']"
  by (simp add: path_exists_def demo_fs_def eval_nat_numeral)

text \<open>
  Claim C3, as amended.  For a pip project whose tree holds both \<^verbatim>\<open>requirements.txt\<close>
  and \<^verbatim>\<open>requirements.frozen.txt\<close>, built by the docker or the kaniko builder, the
  section copies the two manifests and the bootstrap script, its install command runs
  the bootstrap script, and the filter \<^verbatim>\<open>WANDB_ONLY_INCLUDE\<close> before the command is the
  comma-joined set of the shell-quoted entries of the requirements parsed from the
  plain manifest, each entry once, in the order the set iterates: the entry of a
  requirement is its lowercased name when the object has the attribute \<^verbatim>\<open>name\<close>, and
  \<^verbatim>\<open>str\<close> of the requirement, as it is, when it has not.
\<close>

theorem frozen_manifest_precedence:
  assumes pip: "deps_type launch_project = Some ''pip''"
    and dir: "project_dir launch_project = Some d"
    and plain: "read_text fl fs (d @ [''requirements.txt'']) = Inr manifest"
    and frozen: "path_exists fl fs (d @ [''requirements.frozen.txt''])"
    and builder: "builder_type = ''docker'' \<or> builder_type = ''kaniko''"
    and order: "iteration_order set_order"
  shows "\<exists>include_only msgs.
           get_requirements_section buildx_probe parse set_order fl fs launch_project builder_type
           = Inr (PIP_TEMPLATE
                    (if builder_type = ''docker'' \<and> buildx_probe then PIP_CACHE_MOUNT else DISABLE_CACHE)
                    ''src/requirements.txt src/requirements.frozen.txt _wandb_bootstrap.py''
                    (''WANDB_ONLY_INCLUDE='' @ py_join '','' include_only @ '' python _wandb_bootstrap.py''),
                  msgs)
           \<and> distinct include_only
           \<and> set include_only
               = set (map (\<lambda>pkg. shlex_quote (case req_name pkg of
                                                  Some n \<Rightarrow> str_lower n
                                                | None \<Rightarrow> req_str pkg))
                          (yielded (parse manifest)))"
proof -
  obtain added warned where loop: "include_loop (parse manifest) = (added, warned)"
    by (cases "include_loop (parse manifest)")
  let ?include_only = "set_order added"
  have ex: "path_exists fl fs (d @ [''requirements.txt''])"
    using plain by (rule read_text_exists)
  have parsed: "parse_existing_requirements parse set_order fl fs launch_project
                = Inr (''WANDB_ONLY_INCLUDE='' @ py_join '','' ?include_only @ '' '', warned)"
    using dir ex plain loop by (simp add: parse_existing_requirements_def)
  have files: "pip_files_and_install parse set_order fl fs launch_project
               = Inr ([''src/requirements.txt'', ''src/requirements.frozen.txt'', ''_wandb_bootstrap.py''],
                      Some (''WANDB_ONLY_INCLUDE='' @ py_join '','' ?include_only
                            @ '' python _wandb_bootstrap.py''), warned)"
    using dir ex frozen parsed by (simp add: pip_files_and_install_def in_project_def)
  have result: "get_requirements_section buildx_probe parse set_order fl fs launch_project builder_type
           = Inr (PIP_TEMPLATE
                    (if builder_type = ''docker'' \<and> buildx_probe then PIP_CACHE_MOUNT else DISABLE_CACHE)
                    ''src/requirements.txt src/requirements.frozen.txt _wandb_bootstrap.py''
                    (''WANDB_ONLY_INCLUDE='' @ py_join '','' ?include_only @ '' python _wandb_bootstrap.py''),
                  (if builder_type = ''docker'' \<and> \<not> buildx_probe then [TermWarn BUILDX_WARNING] else [])
                  @ warned)"
    using builder pip files
    by (auto simp: get_requirements_section_def builder_block_def)
  have "distinct ?include_only" and "set ?include_only = set added"
    using order by (simp_all add: iteration_order_def)
  moreover have "added = map (\<lambda>pkg. shlex_quote (case req_name pkg of
                                                  Some n \<Rightarrow> str_lower n
                                                | None \<Rightarrow> req_str pkg))
                          (yielded (parse manifest))"
    using include_loop_names [of "parse manifest"] loop
    by (simp add: include_name_def [abs_def])
  ultimately show ?thesis using result by blast
qed

theorem frozen_manifest_precedence_witness:
  "deps_type demo_project = Some ''pip''
   \<and> read_text (\<lambda>p t. []) demo_fs [''proj'', ''requirements.txt''] = Inr ''numpy==1.2 Pandas numpy''
   \<and> path_exists (\<lambda>p t. []) demo_fs [''proj'', ''requirements.frozen.txt'']
   \<and> iteration_order remdups
   \<and> (\<exists>include_only msgs.
         get_requirements_section False demo_parse remdups (\<lambda>p t. []) demo_fs demo_project ''kaniko''
         = Inr (PIP_TEMPLATE DISABLE_CACHE
                  ''src/requirements.txt src/requirements.frozen.txt _wandb_bootstrap.py''
                  (''WANDB_ONLY_INCLUDE='' @ py_join '','' include_only @ '' python _wandb_bootstrap.py''),
                msgs)
         \<and> distinct include_only
         \<and> set include_only = {''numpy'', ''pandas''})"
proof -
  have h1: "deps_type demo_project = Some ''pip''"
    and h2: "project_dir demo_project = Some [''proj'']"
    by (simp_all add: demo_project_def)
  have h3: "iteration_order remdups"
    by (simp add: iteration_order_def)
  have names: "set (map (\<lambda>pkg. shlex_quote (case req_name pkg of
                                                  Some n \<Rightarrow> str_lower n
                                                | None \<Rightarrow> req_str pkg))
                        (yielded (demo_parse ''numpy==1.2 Pandas numpy'')))
               = {''numpy'', ''pandas''}"
    by (auto simp: demo_parse_def shlex_quote_def safe_char_def str_lower_def lower_char_def)
  show ?thesis
    using frozen_manifest_precedence [where launch_project = demo_project and d = "[''proj'']"
        and fl = "\<lambda>p t. []" and fs = demo_fs and manifest = "''numpy==1.2 Pandas numpy''"
        and builder_type = "''kaniko''" and set_order = remdups and parse = demo_parse
        and buildx_probe = False]
      h1 h2 demo_read demo_exists h3 names
    by auto
qed

text \<open>
  The claim as stated fails in two ways.  A requirement object without the attribute
  \<^verbatim>\<open>name\<close> enters the filter as \<^verbatim>\<open>str(pkg)\<close>, neither lowercased nor a bare name; and
  under a builder that is neither docker nor kaniko the pip branch reads
  \<^verbatim>\<open>buildx_installed\<close> unassigned.
\<close>

theorem frozen_manifest_unnamed:
  "get_requirements_section False unnamed_parse remdups (\<lambda>p t. []) demo_fs demo_project ''kaniko''
   = Inr (PIP_TEMPLATE DISABLE_CACHE
            ''src/requirements.txt src/requirements.frozen.txt _wandb_bootstrap.py''
            ''WANDB_ONLY_INCLUDE=Numpy==1.2 python _wandb_bootstrap.py'', [])
   \<and> get_requirements_section False demo_parse remdups (\<lambda>p t. []) demo_fs demo_project ''noop''
       = Inl (UnboundLocalError ''buildx_installed'')"
  by (simp add: get_requirements_section_def builder_block_def pip_files_and_install_def
      parse_existing_requirements_def in_project_def path_exists_def read_text_def demo_fs_def
      demo_project_def unnamed_parse_def demo_parse_def include_name_def shlex_quote_def
      safe_char_def str_lower_def lower_char_def eval_nat_numeral)

text \<open>
  Without a manifest the pip branch never assigns \<^verbatim>\<open>pip_install_line\<close>.
\<close>

lemma pip_without_manifests:
  assumes "deps_type launch_project = Some ''pip''"
    and "\<not> in_project fl fs launch_project ''requirements.txt''"
    and "\<not> in_project fl fs launch_project ''requirements.frozen.txt''"
    and "builder_type = ''docker'' \<or> builder_type = ''kaniko''"
  shows "get_requirements_section buildx_probe parse set_order fl fs launch_project builder_type
         = Inl (UnboundLocalError ''pip_install_line'')"
  using assms
  by (auto simp: get_requirements_section_def builder_block_def pip_files_and_install_def)

text \<open>
  Claim C4, as amended.  For every project whose dependency kind is neither pip nor
  conda (the kind of a project in which no manifest was found), under every builder,
  the requirements section is exactly the placeholder \<^verbatim>\<open>RUN mkdir -p env/\<close>, with no
  install command; the warning \<^verbatim>\<open>No requirements file found. No packages will be
  installed.\<close> is printed last; and the composition does not fail.
\<close>

theorem no_deps_placeholder:
  assumes "deps_type launch_project \<noteq> Some ''pip''" and "deps_type launch_project \<noteq> Some ''conda''"
  shows "get_requirements_section buildx_probe parse set_order fl fs launch_project builder_type
         = Inr (''RUN mkdir -p env/'',
                (if builder_type = ''docker'' \<and> \<not> buildx_probe then [TermWarn BUILDX_WARNING] else [])
                @ [TermWarn ''No requirements file found. No packages will be installed.''])"
  using assms
  by (auto simp: get_requirements_section_def builder_block_def)

theorem no_deps_placeholder_witness:
  "deps_type none_project \<noteq> Some ''pip'' \<and> deps_type none_project \<noteq> Some ''conda''
   \<and> get_requirements_section False demo_parse remdups (\<lambda>p t. []) bare_fs none_project ''kaniko''
       = Inr (''RUN mkdir -p env/'',
              [TermWarn ''No requirements file found. No packages will be installed.''])"
proof -
  have n: "deps_type none_project \<noteq> Some ''pip''" "deps_type none_project \<noteq> Some ''conda''"
    by (simp_all add: none_project_def demo_project_def)
  show ?thesis
    using no_deps_placeholder [OF n, where builder_type = "''kaniko''" and buildx_probe = False
        and parse = demo_parse and set_order = remdups and fl = "\<lambda>p t. []" and fs = bare_fs] n
    by simp
qed

text \<open>
  The claim as stated, for a pip project whose tree holds neither manifest, fails: the
  code raises \<^verbatim>\<open>UnboundLocalError\<close> there and returns no section.
\<close>

theorem pip_without_manifests_raises:
  "deps_type demo_project = Some ''pip''
   \<and> \<not> path_exists (\<lambda>p t. []) bare_fs [''proj'', ''requirements.txt'']
   \<and> \<not> path_exists (\<lambda>p t. []) bare_fs [''proj'', ''requirements.frozen.txt'']
   \<and> get_requirements_section False demo_parse remdups (\<lambda>p t. []) bare_fs demo_project ''kaniko''
       = Inl (UnboundLocalError ''pip_install_line'')"
  by (simp add: get_requirements_section_def builder_block_def pip_files_and_install_def
      in_project_def path_exists_def bare_fs_def demo_project_def eval_nat_numeral)

text \<open>
  Claim C5.  When the builder is kaniko, or docker with BuildX absent, the install
  command of a conda section and of every pip section that is generated starts with
  \<^verbatim>\<open>RUN WANDB_DISABLE_CACHE=true\<close>, which holds no \<^verbatim>\<open>--mount\<close>; and such a section is
  generated for every conda project and for a pip project with the plain manifest only
  (for one with both manifests see C3).
\<close>

theorem cache_mount_gating:
  assumes gate: "builder_type = ''kaniko'' \<or> (builder_type = ''docker'' \<and> \<not> buildx_probe)"
  shows "(deps_type launch_project = Some ''conda'' \<longrightarrow>
            (\<exists>msgs. get_requirements_section buildx_probe parse set_order fl fs launch_project builder_type
                    = Inr (CONDA_TEMPLATE DISABLE_CACHE, msgs)))
       \<and> (deps_type launch_project = Some ''pip'' \<longrightarrow>
            (\<forall>sect msgs.
               get_requirements_section buildx_probe parse set_order fl fs launch_project builder_type
               = Inr (sect, msgs) \<longrightarrow>
               (\<exists>files install. sect = PIP_TEMPLATE DISABLE_CACHE files install)))
       \<and> (deps_type launch_project = Some ''pip''
            \<and> in_project fl fs launch_project ''requirements.txt''
            \<and> \<not> in_project fl fs launch_project ''requirements.frozen.txt'' \<longrightarrow>
            (\<exists>msgs. get_requirements_section buildx_probe parse set_order fl fs launch_project builder_type
                    = Inr (PIP_TEMPLATE DISABLE_CACHE ''src/requirements.txt''
                             ''pip install -r requirements.txt'', msgs)))
       \<and> \<not> sublist ''--mount'' DISABLE_CACHE"
proof -
  obtain msgs0 where block: "builder_block buildx_probe builder_type = (Some DISABLE_CACHE, Some False, msgs0)"
    using gate by (auto simp: builder_block_def)
  have conda: "get_requirements_section buildx_probe parse set_order fl fs launch_project builder_type
               = Inr (CONDA_TEMPLATE DISABLE_CACHE, msgs0)"
    if "deps_type launch_project = Some ''conda''"
    using that block by (simp add: get_requirements_section_def)
  have pip: "\<exists>files install. sect = PIP_TEMPLATE DISABLE_CACHE files install"
    if "deps_type launch_project = Some ''pip''"
      and "get_requirements_section buildx_probe parse set_order fl fs launch_project builder_type
           = Inr (sect, msgs)"
    for sect msgs
  proof -
    from that block obtain files install
      where "sect = PIP_TEMPLATE DISABLE_CACHE (py_join '' '' files) install"
      by (auto simp: get_requirements_section_def split: sum.splits option.splits)
    then show ?thesis by blast
  qed
  have plain: "get_requirements_section buildx_probe parse set_order fl fs launch_project builder_type
               = Inr (PIP_TEMPLATE DISABLE_CACHE ''src/requirements.txt''
                        ''pip install -r requirements.txt'', msgs0)"
    if "deps_type launch_project = Some ''pip''"
      and "in_project fl fs launch_project ''requirements.txt''"
      and "\<not> in_project fl fs launch_project ''requirements.frozen.txt''"
    using that block by (simp add: get_requirements_section_def pip_files_and_install_def)
  have "CHR ''-'' \<notin> set DISABLE_CACHE"
    by (simp add: DISABLE_CACHE_def)
  then have dash: "\<not> sublist ''--mount'' DISABLE_CACHE"
    by (auto dest: set_mono_sublist)
  show ?thesis
    using conda pip plain dash by blast
qed

theorem cache_mount_gating_witness:
  "deps_type conda_project = Some ''conda''
   \<and> (\<exists>msgs. get_requirements_section True demo_parse remdups (\<lambda>p t. []) bare_fs conda_project ''kaniko''
              = Inr (CONDA_TEMPLATE DISABLE_CACHE, msgs))
   \<and> deps_type demo_project = Some ''pip''
   \<and> in_project (\<lambda>p t. []) plain_fs demo_project ''requirements.txt''
   \<and> \<not> in_project (\<lambda>p t. []) plain_fs demo_project ''requirements.frozen.txt''
   \<and> (\<exists>msgs. get_requirements_section False demo_parse remdups (\<lambda>p t. []) plain_fs demo_project ''docker''
              = Inr (PIP_TEMPLATE DISABLE_CACHE ''src/requirements.txt''
                       ''pip install -r requirements.txt'', msgs))"
proof -
  have c: "deps_type conda_project = Some ''conda''"
    by (simp add: conda_project_def demo_project_def)
  have p: "deps_type demo_project = Some ''pip''"
    by (simp add: demo_project_def)
  have f1: "in_project (\<lambda>p t. []) plain_fs demo_project ''requirements.txt''"
    and f2: "\<not> in_project (\<lambda>p t. []) plain_fs demo_project ''requirements.frozen.txt''"
    by (simp_all add: in_project_def path_exists_def plain_fs_def demo_project_def eval_nat_numeral)
  show ?thesis
    using cache_mount_gating [where builder_type = "''kaniko''" and buildx_probe = True
        and launch_project = conda_project and parse = demo_parse and set_order = remdups
        and fl = "\<lambda>p t. []" and fs = bare_fs]
      cache_mount_gating [where builder_type = "''docker''" and buildx_probe = False
        and launch_project = demo_project and parse = demo_parse and set_order = remdups
        and fl = "\<lambda>p t. []" and fs = plain_fs]
      c p f1 f2
    by simp
qed


section \<open>Properties of the staged build context\<close>

lemma relative_append [simp]: "relative d (d @ rel) = Some rel"
  by (induction d) simp_all








lemma relative_append_both [simp]: "relative (d @ a) (d @ b) = relative a b"
  by (induction d) simp_all

lemma relative_shorter [simp]: "relative (d @ c # cs) d = None"
  by (induction d) simp_all






















section \<open>Properties of the dispatcher\<close>









section \<open>Properties of the image tag\<close>

subsection \<open>Encoding, digest length and hexadecimal digits\<close>

lemma utf8_encode_ok: "encodable s \<Longrightarrow> utf8_encode s = Inr (concat (map utf8_bytes s))"
  by (induction s) (simp_all add: encodable_def)

lemma utf8_encode_fail: "\<not> encodable s \<Longrightarrow> utf8_encode s = Inl UnicodeEncodeError"
  by (induction s) (auto simp: encodable_def split: sum.splits)

lemma length_round256: "length (round256 s kw) = length s"
  by (induction s kw rule: round256.induct) (simp_all add: Let_def)

lemma length_foldl_round256: "length (foldl round256 s kws) = length s"
  by (induction kws arbitrary: s) (simp_all add: length_round256)

lemma length_compress: "length (compress h m) = length h"
  by (simp add: compress_def length_foldl_round256)

lemma length_foldl_compress: "length (foldl compress h bytes) = length h"
  by (induction bytes arbitrary: h) (simp_all add: length_compress)

lemma length_word_bytes: "length (concat (map word_bytes ws)) = 4 * length ws"
  by (induction ws) (simp_all add: word_bytes_def)

lemma length_sha256: "length (sha256 m) = 32"
  by (simp add: sha256_def length_word_bytes length_foldl_compress H256_def)

lemma sha256_bytes: "list_all (\<lambda>b. b < 256) (sha256 m)"
  by (simp add: sha256_def list_all_iff word_bytes_def)

lemma length_hexdigest: "length (hexdigest bytes) = 2 * length bytes"
  by (induction bytes) (simp_all add: hexdigest_def)

lemma list_all_take: "list_all P xs \<Longrightarrow> list_all P (take n xs)"
  by (auto simp: list_all_iff dest: in_set_takeD)

lemma hex_digit_range: "lower_hex (hex_digit n)"
  unfolding hex_digit_def lower_hex_def by (rule nth_mem) simp

lemma hexdigest_chars: "list_all lower_hex (hexdigest bytes)"
  using hex_digit_range by (induction bytes) (simp_all add: hexdigest_def)

lemma take_hexdigest: "take (2 * n) (hexdigest bytes) = hexdigest (take n bytes)"
proof (induction bytes arbitrary: n)
  case Nil
  then show ?case by (simp add: hexdigest_def)
next
  case (Cons b bytes)
  then show ?case by (cases n) (simp_all add: hexdigest_def)
qed

lemma hex_digit_inj: "hex_digit a = hex_digit b \<Longrightarrow> a mod 16 = b mod 16"
proof -
  assume "hex_digit a = hex_digit b"
  moreover have "distinct ''0123456789abcdef''" by simp
  moreover have "a mod 16 < length ''0123456789abcdef''" "b mod 16 < length ''0123456789abcdef''" by simp_all
  ultimately show ?thesis unfolding hex_digit_def by (simp only: nth_eq_iff_index_eq)
qed

lemma hexdigest_inj:
  "list_all (\<lambda>b. b < 256) xs \<Longrightarrow> list_all (\<lambda>b. b < 256) ys \<Longrightarrow> hexdigest xs = hexdigest ys \<Longrightarrow> xs = ys"
proof (induction xs arbitrary: ys)
  case Nil
  then show ?case by (cases ys) (simp_all add: hexdigest_def)
next
  case (Cons x xs)
  then obtain y ys' where ys: "ys = y # ys'" by (cases ys) (auto simp: hexdigest_def)
  from Cons.prems ys have hi: "hex_digit (x div 16) = hex_digit (y div 16)"
    and lo: "hex_digit x = hex_digit y" and rest: "hexdigest xs = hexdigest ys'"
    by (simp_all add: hexdigest_def)
  from Cons.prems ys have b: "x < 256" "y < 256" by simp_all
  from hex_digit_inj [OF hi] b have "x div 16 = y div 16" by simp
  moreover from hex_digit_inj [OF lo] have "x mod 16 = y mod 16" .
  ultimately have "x = y" by (metis div_mult_mod_eq)
  moreover have "xs = ys'" using Cons.IH [of ys'] Cons.prems ys rest by simp
  ultimately show ?case using ys by simp
qed



lemma blocks_short: "length ws < 16 \<Longrightarrow> blocks ws = []"
  by simp

lemma blocks_long: "\<not> length ws < 16 \<Longrightarrow> blocks ws = take 16 ws # blocks (drop 16 ws)"
  by simp

lemma schedule_numeral:
  "schedule (numeral n) w = sched_next w # schedule (pred_numeral n) (tl w @ [sched_next w])"
  by (simp add: numeral_eq_Suc)

lemma replicate_numeral:
  "replicate (numeral k) x = x # replicate (pred_numeral k) x"
  by (simp add: numeral_eq_Suc)

lemmas sha256_eval =
  sha256_def pad_def compress_def K256_def H256_def blocks_short blocks_long schedule_numeral
  replicate_numeral sched_next_def Let_def Ch_def Maj_def bsig0_def bsig1_def ssig0_def ssig1_def
  rotr_def shr_def add32_def word_bytes_def


lemma image_tag_value:
  "encodable (ident @ recipe) \<Longrightarrow>
   image_tag ident recipe = Inr (hexdigest (take 4 (sha256 (concat (map utf8_bytes (ident @ recipe))))))"
  using take_hexdigest [of 4] 
  by (simp add: image_tag_def image_tag_from_dockerfile_and_source_def utf8_encode_ok)


subsection \<open>Digests of four short messages\<close>

text \<open>
  The messages are the UTF-8 bytes of \<^verbatim>\<open>imgRUN echo 442\<close>, \<^verbatim>\<open>imgRUN echo 34737\<close>,
  \<^verbatim>\<open>job:v32977FROM python:3.9\<close> and \<^verbatim>\<open>job:v48087FROM python:3.9\<close>.
\<close>

lemma digest_echo_442:
  "sha256 [105, 109, 103, 82, 85, 78, 32, 101, 99, 104, 111, 32, 52, 52, 50]
   = [168, 110, 38, 184, 18, 193, 251, 183, 102, 113, 18, 29, 117, 131, 77, 105, 216, 1, 200, 169, 9, 229, 13, 208, 2, 155, 226, 122, 79, 58, 134, 64]"
  by (simp add: sha256_eval del: blocks.simps)

lemma digest_echo_34737:
  "sha256 [105, 109, 103, 82, 85, 78, 32, 101, 99, 104, 111, 32, 51, 52, 55, 51, 55]
   = [168, 110, 38, 184, 160, 170, 53, 58, 75, 1, 244, 14, 76, 5, 239, 38, 212, 119, 14, 230, 210, 67, 251, 146, 107, 250, 36, 247, 66, 244, 121, 173]"
  by (simp add: sha256_eval del: blocks.simps)

lemma digest_job_32977:
  "sha256 [106, 111, 98, 58, 118, 51, 50, 57, 55, 55, 70, 82, 79, 77, 32, 112, 121, 116, 104, 111, 110, 58, 51, 46, 57]
   = [154, 202, 56, 96, 118, 103, 29, 226, 47, 146, 111, 74, 183, 10, 93, 4, 73, 160, 152, 234, 206, 219, 106, 251, 94, 3, 42, 254, 62, 237, 205, 161]"
  by (simp add: sha256_eval del: blocks.simps)

lemma digest_job_48087:
  "sha256 [106, 111, 98, 58, 118, 52, 56, 48, 56, 55, 70, 82, 79, 77, 32, 112, 121, 116, 104, 111, 110, 58, 51, 46, 57]
   = [154, 202, 56, 96, 173, 108, 48, 249, 132, 140, 240, 165, 60, 135, 206, 134, 129, 34, 30, 190, 0, 97, 222, 223, 231, 211, 151, 196, 100, 163, 233, 60]"
  by (simp add: sha256_eval del: blocks.simps)


lemma tag_echo_442:
  "image_tag (code_points ''img'') (code_points ''RUN echo 442'') = Inr ''a86e26b8''"
  by (simp add: image_tag_def image_tag_from_dockerfile_and_source_def code_points_def surrogate_def
      utf8_bytes_def digest_echo_442 hexdigest_def hex_digit_def)

lemma tag_echo_34737:
  "image_tag (code_points ''img'') (code_points ''RUN echo 34737'') = Inr ''a86e26b8''"
  by (simp add: image_tag_def image_tag_from_dockerfile_and_source_def code_points_def surrogate_def
      utf8_bytes_def digest_echo_34737 hexdigest_def hex_digit_def)

lemma tag_job_32977:
  "image_tag (code_points ''job:v32977'') (code_points ''FROM python:3.9'') = Inr ''9aca3860''"
  by (simp add: image_tag_def image_tag_from_dockerfile_and_source_def code_points_def surrogate_def
      utf8_bytes_def digest_job_32977 hexdigest_def hex_digit_def)

lemma tag_job_48087:
  "image_tag (code_points ''job:v48087'') (code_points ''FROM python:3.9'') = Inr ''9aca3860''"
  by (simp add: image_tag_def image_tag_from_dockerfile_and_source_def code_points_def surrogate_def
      utf8_bytes_def digest_job_48087 hexdigest_def hex_digit_def)


subsection \<open>The tag is the digest's first eight hexadecimal digits\<close>

text \<open>
  Claim C1, as amended.  For every identity string and recipe text whose code points
  UTF-8 can encode (none is a surrogate), the tag is the first eight hexadecimal digits
  of the SHA-256 digest of the UTF-8 encoding of the identity string followed by the
  recipe text, and it is a string of eight lowercase hexadecimal digits.
\<close>

theorem image_tag_digest_prefix:
  "encodable (ident @ recipe) \<Longrightarrow>
   image_tag ident recipe
     = Inr (take 8 (hexdigest (sha256 (concat (map utf8_bytes (ident @ recipe))))))
   \<and> (\<exists>t. image_tag ident recipe = Inr t \<and> length t = 8
            \<and> list_all lower_hex t)"
proof -
  assume enc: "encodable (ident @ recipe)"
  let ?d = "sha256 (concat (map utf8_bytes (ident @ recipe)))"
  have v: "image_tag ident recipe = Inr (take 8 (hexdigest ?d))"
    using enc by (simp add: image_tag_def image_tag_from_dockerfile_and_source_def utf8_encode_ok)
  have "length (take 8 (hexdigest ?d)) = 8"
    by (simp add: length_hexdigest length_sha256)
  moreover have "list_all lower_hex (take 8 (hexdigest ?d))"
    using hexdigest_chars by (rule list_all_take)
  ultimately show ?thesis using v by blast
qed

theorem image_tag_digest_prefix_witness:
  "encodable (code_points ''img'' @ code_points ''RUN echo 442'')
   \<and> image_tag (code_points ''img'') (code_points ''RUN echo 442'')
       = Inr (take 8 (hexdigest (sha256 (concat (map utf8_bytes
               (code_points ''img'' @ code_points ''RUN echo 442''))))))
   \<and> (\<exists>t. image_tag (code_points ''img'') (code_points ''RUN echo 442'') = Inr t
            \<and> length t = 8 \<and> list_all lower_hex t)"
proof -
  have e: "encodable (code_points ''img'' @ code_points ''RUN echo 442'')"
    by (simp add: encodable_def code_points_def surrogate_def)
  show ?thesis
    using e image_tag_digest_prefix [OF e] by blast
qed


text \<open>
  The claim as stated, for every string, fails: a Python string may hold a lone
  surrogate (\<^verbatim>\<open>json.loads\<close> yields one for an unpaired escape), and then the
  encoding step raises and no tag is returned.
\<close>

theorem image_tag_surrogate:
  "is_str (code_points ''img'') \<and> is_str (code_points ''RUN echo '' @ [0xD83D])
   \<and> image_tag (code_points ''img'') (code_points ''RUN echo '' @ [0xD83D]) = Inl UnicodeEncodeError"
proof -
  have "\<not> encodable (code_points ''img'' @ code_points ''RUN echo '' @ [0xD83D])"
    by (simp add: encodable_def surrogate_def)
  then have "utf8_encode (code_points ''img'' @ code_points ''RUN echo '' @ [0xD83D])
             = Inl UnicodeEncodeError"
    by (rule utf8_encode_fail)
  moreover have "is_str (code_points ''img'')" "is_str (code_points ''RUN echo '' @ [0xD83D])"
    by (simp_all add: is_str_def code_points_def)
  ultimately show ?thesis
    by (simp add: image_tag_def image_tag_from_dockerfile_and_source_def)
qed


subsection \<open>When two tags are equal\<close>

text \<open>
  Claim C6, as amended.  For identity strings and recipe texts that UTF-8 can encode,
  two tags are equal exactly when the two SHA-256 digests agree on their first four
  bytes; so two inputs whose digests differ there have different tags, and two
  different inputs whose digests agree there have the same tag.
\<close>

theorem image_tag_collides_iff:
  "encodable (id1 @ t1) \<Longrightarrow> encodable (id2 @ t2) \<Longrightarrow>
   (image_tag id1 t1 = image_tag id2 t2)
   = (take 4 (sha256 (concat (map utf8_bytes (id1 @ t1))))
      = take 4 (sha256 (concat (map utf8_bytes (id2 @ t2)))))"
proof -
  assume e1: "encodable (id1 @ t1)" and e2: "encodable (id2 @ t2)"
  let ?x = "take 4 (sha256 (concat (map utf8_bytes (id1 @ t1))))"
  let ?y = "take 4 (sha256 (concat (map utf8_bytes (id2 @ t2))))"
  have bx: "list_all (\<lambda>b. b < 256) ?x" and by': "list_all (\<lambda>b. b < 256) ?y"
    using sha256_bytes by (rule list_all_take)+
  have "(image_tag id1 t1 = image_tag id2 t2) = (hexdigest ?x = hexdigest ?y)"
    by (simp add: image_tag_value [OF e1] image_tag_value [OF e2])
  also have "\<dots> = (?x = ?y)"
    using hexdigest_inj [OF bx by'] by auto
  finally show ?thesis .
qed
theorem image_tag_collides_iff_witness:
  "encodable (code_points ''img'' @ code_points ''RUN echo 442'')
   \<and> encodable (code_points ''img'' @ code_points ''RUN echo 34737'')
   \<and> take 4 (sha256 (concat (map utf8_bytes (code_points ''img'' @ code_points ''RUN echo 442''))))
       = take 4 (sha256 (concat (map utf8_bytes (code_points ''img'' @ code_points ''RUN echo 34737''))))
   \<and> image_tag (code_points ''img'') (code_points ''RUN echo 442'')
       = image_tag (code_points ''img'') (code_points ''RUN echo 34737'')"
proof -
  have e1: "encodable (code_points ''img'' @ code_points ''RUN echo 442'')"
    and e2: "encodable (code_points ''img'' @ code_points ''RUN echo 34737'')"
    by (simp_all add: encodable_def code_points_def surrogate_def)
  have d: "take 4 (sha256 (concat (map utf8_bytes (code_points ''img'' @ code_points ''RUN echo 442''))))
       = take 4 (sha256 (concat (map utf8_bytes (code_points ''img'' @ code_points ''RUN echo 34737''))))"
    by (simp add: code_points_def utf8_bytes_def digest_echo_442 digest_echo_34737)
  show ?thesis
    using e1 e2 d image_tag_collides_iff [OF e1 e2] by blast
qed

text \<open>
  The claim as stated fails: two different recipe texts relative one identity string, and
  two different identity strings relative one recipe text, with the same tag.
\<close>

theorem image_tag_collision:
  "code_points ''RUN echo 442'' \<noteq> code_points ''RUN echo 34737''
   \<and> image_tag (code_points ''img'') (code_points ''RUN echo 442'')
       = image_tag (code_points ''img'') (code_points ''RUN echo 34737'')
   \<and> code_points ''job:v32977'' \<noteq> code_points ''job:v48087''
   \<and> image_tag (code_points ''job:v32977'') (code_points ''FROM python:3.9'')
       = image_tag (code_points ''job:v48087'') (code_points ''FROM python:3.9'')"
  by (simp add: tag_echo_442 tag_echo_34737 tag_job_32977 tag_job_48087) (simp add: code_points_def)


end
